theory Spec2Isabelle
  imports Main "HOL-Library.Sublist"
begin

section \<open>Python strings\<close>

text \<open>
  A Python \<open>str\<close> is modelled as a \<open>string\<close>: a list of characters, each character
  standing for the code point of the same number (0 to 255).  The string methods that
  \<open>main.py\<close> calls are written out below with the behaviour of CPython.
\<close>

definition isspace :: "char \<Rightarrow> bool" where
  \<comment> \<open>\<open>str.isspace\<close> on one character: the code points below 256 that Python treats
      as whitespace (TAB to CR, FS to US, SPACE, NEL, NBSP).\<close>
  "isspace c = (of_char c \<in> set [9, 10, 11, 12, 13, 28, 29, 30, 31, 32, 133, 160 :: nat])"

definition lstrip :: "string \<Rightarrow> string" where
  "lstrip s = dropWhile isspace s"

definition rstrip :: "string \<Rightarrow> string" where
  "rstrip s = rev (dropWhile isspace (rev s))"

definition strip :: "string \<Rightarrow> string" where
  \<comment> \<open>\<open>s.strip()\<close>: leading and trailing whitespace removed.\<close>
  "strip s = rstrip (lstrip s)"

fun contains :: "string \<Rightarrow> string \<Rightarrow> bool" where
  \<comment> \<open>\<open>contains sub s\<close> is Python's \<open>sub in s\<close>.\<close>
  "contains sub [] = (sub = [])"
| "contains sub (c # cs) = (prefix sub (c # cs) \<or> contains sub cs)"

fun replace_from :: "string \<Rightarrow> string \<Rightarrow> string \<Rightarrow> string" where
  \<comment> \<open>The left-to-right scan of \<open>str.replace\<close> for a non-empty pattern: at each
      position either the pattern matches and is skipped whole, or one character is
      copied.\<close>
  "replace_from old new [] = []"
| "replace_from old new (c # cs) =
     (if prefix old (c # cs) \<and> old \<noteq> []
      then new @ replace_from old new (drop (length old - 1) cs)
      else c # replace_from old new cs)"

definition replace :: "string \<Rightarrow> string \<Rightarrow> string \<Rightarrow> string" where
  \<comment> \<open>\<open>s.replace(old, new)\<close>.  With an empty pattern Python puts \<open>new\<close> before
      every character and at the end.\<close>
  "replace old new s =
     (if old = [] then new @ concat (map (\<lambda>c. c # new) s) else replace_from old new s)"

definition join :: "string \<Rightarrow> string list \<Rightarrow> string" where
  \<comment> \<open>\<open>sep.join(xs)\<close>\<close>
  "join sep xs = (case xs of [] \<Rightarrow> [] | y # ys \<Rightarrow> y @ concat (map (\<lambda>z. sep @ z) ys))"

definition repeat :: "string \<Rightarrow> int \<Rightarrow> string" where
  \<comment> \<open>\<open>s * n\<close>: the empty string when \<open>n\<close> is not positive.\<close>
  "repeat s n = concat (replicate (nat n) s)"

section \<open>The outline renderer\<close>

type_synonym heading = "int \<times> string"

definition generate_markdown_outline :: "string \<Rightarrow> heading list \<Rightarrow> string" where
  "generate_markdown_outline country headings =
     (let markdown_lines = [''## Contents'' @ [CHR 0x0A]];
          markdown_lines = foldl (\<lambda>markdown_lines (level, text).
              let markdown_prefix = repeat ''#'' level
              in markdown_lines @ [markdown_prefix @ '' '' @ text])
            markdown_lines headings
      in join [CHR 0x0A, CHR 0x0A] markdown_lines)"

section \<open>Exceptions\<close>

text \<open>
  The exceptions that the called code raises are all subclasses of \<open>Exception\<close>.  The
  handler tells \<open>requests.exceptions.HTTPError\<close> from the rest and reads two things of an
  exception \<open>e\<close>: \<open>e.response.status_code\<close> (of an \<open>HTTPError\<close>) and \<open>str(e)\<close>.
  An \<open>HTTPError\<close> comes from \<open>raise_for_status\<close>, which attaches the response, so it
  always has a status code.
\<close>

datatype exn =
    HTTPError int string   \<comment> \<open>\<open>e.response.status_code\<close> and \<open>str(e)\<close>\<close>
  | OtherError string      \<comment> \<open>any other \<open>Exception\<close>, with \<open>str(e)\<close>\<close>

section \<open>The fetcher\<close>

definition always_safe :: "char \<Rightarrow> bool" where
  \<comment> \<open>\<open>urllib.parse._ALWAYS_SAFE\<close>\<close>
  "always_safe c =
     (c \<in> set (''ABCDEFGHIJKLMNOPQRSTUVWXYZ'' @ ''abcdefghijklmnopqrstuvwxyz'' @
                ''0123456789'' @ ''_.-~''))"

definition hex_digit :: "nat \<Rightarrow> char" where
  "hex_digit n = ''0123456789ABCDEF'' ! (n mod 16)"

definition percent_byte :: "nat \<Rightarrow> string" where
  \<comment> \<open>\<open>'%{:02X}'.format(b)\<close> for a byte \<open>b\<close>\<close>
  "percent_byte b = [CHR ''%'', hex_digit (b div 16), hex_digit (b mod 16)]"

definition utf8_encode :: "char \<Rightarrow> nat list" where
  \<comment> \<open>The UTF-8 bytes of a code point below 256: one byte up to 127, two above.\<close>
  "utf8_encode c =
     (let n = of_char c :: nat in if n < 128 then [n] else [192 + n div 64, 128 + n mod 64])"

definition quote_byte :: "nat \<Rightarrow> string" where
  \<comment> \<open>A byte is kept when it is always safe or is \<open>/\<close> (the default \<open>safe\<close>).\<close>
  "quote_byte b =
     (if b < 128 \<and> (always_safe (char_of b) \<or> char_of b = CHR ''/'') then [char_of b]
      else percent_byte b)"

definition quote :: "string \<Rightarrow> string" where
  \<comment> \<open>\<open>urllib.parse.quote(s)\<close>: the string is encoded as UTF-8 and every byte that
      is not safe becomes \<open>%XX\<close>.\<close>
  "quote s = concat (map quote_byte (concat (map utf8_encode s)))"

record response =
  status_code :: int
  reason :: string
  resp_url :: string
  resp_text :: string

fun str_nat :: "nat \<Rightarrow> string" where
  "str_nat n =
     (if n < 10 then [char_of (48 + n)] else str_nat (n div 10) @ [char_of (48 + n mod 10)])"

definition str_int :: "int \<Rightarrow> string" where
  \<comment> \<open>\<open>str(i)\<close> for an integer\<close>
  "str_int i = (if i < 0 then ''-'' @ str_nat (nat (- i)) else str_nat (nat i))"

definition raise_for_status :: "response \<Rightarrow> exn + unit" where
  \<comment> \<open>\<open>requests.Response.raise_for_status\<close>: an \<open>HTTPError\<close> carrying the response
      for the statuses 400 to 599, nothing otherwise.\<close>
  "raise_for_status r =
     (if 400 \<le> status_code r \<and> status_code r < 500
      then Inl (HTTPError (status_code r)
             (str_int (status_code r) @ '' Client Error: '' @ reason r @ '' for url: '' @ resp_url r))
      else if 500 \<le> status_code r \<and> status_code r < 600
      then Inl (HTTPError (status_code r)
             (str_int (status_code r) @ '' Server Error: '' @ reason r @ '' for url: '' @ resp_url r))
      else Inr ())"

type_synonym http_get = "string \<Rightarrow> (string \<times> string) list \<Rightarrow> exn + response"
  \<comment> \<open>\<open>requests.get(url, headers=headers)\<close>: the remote side, a parameter of the model.
      It answers with a response or raises (a connection error, a timeout).\<close>

definition wikipedia_url :: "string \<Rightarrow> string" where
  \<comment> \<open>lines 22 and 23 of \<open>fetch_wikipedia_page\<close>\<close>
  "wikipedia_url country =
     (let country_formatted = replace '' '' ''_'' (strip country)
      in ''https://en.wikipedia.org/wiki/'' @ quote country_formatted)"

definition fetch_wikipedia_page :: "http_get \<Rightarrow> string \<Rightarrow> exn + string" where
  "fetch_wikipedia_page requests_get country =
     (let url = wikipedia_url country;
          headers = [(''User-Agent'', ''GlobalEdu Educational Platform/1.0 (Educational Purpose)'')]
      in case requests_get url headers of
           Inl e \<Rightarrow> Inl e
         | Inr response \<Rightarrow>
             (case raise_for_status response of
                Inl e \<Rightarrow> Inl e
              | Inr _ \<Rightarrow> Inr (resp_text response)))"

section \<open>The heading extractor\<close>

text \<open>
  The tree that \<open>BeautifulSoup(html_content, 'html.parser')\<close> builds: a tag with its name
  and its children, a text node, or a string node that \<open>get_text\<close> skips (a comment, a
  doctype, the content of a script).  Attributes play no part in the extraction and are
  left out.  The soup itself is the list of the top-level nodes.

  The parser is the library's; it is a parameter \<open>BeautifulSoup\<close> of the functions that
  call it.  For an input it returns the tree or raises: \<open>html.parser\<close> rejects some
  malformed markup (a marked section with an unknown keyword such as \<open><![x]>\<close>), and
  the constructor then raises \<open>ParserRejectedMarkup\<close>.
\<close>

datatype node =
    Tag string "node list"
  | NavigableString string
  | Comment string

type_synonym html_parser = "string \<Rightarrow> exn + node list"

fun self_and_descendants :: "node \<Rightarrow> node list" where
  \<comment> \<open>document order: a node, then the subtrees of its children from left to right\<close>
  "self_and_descendants (Tag name children) =
     Tag name children # concat (map self_and_descendants children)"
| "self_and_descendants (NavigableString s) = [NavigableString s]"
| "self_and_descendants (Comment s) = [Comment s]"

definition descendants :: "node list \<Rightarrow> node list" where
  "descendants children = concat (map self_and_descendants children)"

definition find_all :: "string list \<Rightarrow> node list \<Rightarrow> (string \<times> node list) list" where
  \<comment> \<open>\<open>soup.find_all(names)\<close>: the tags among the descendants whose name is listed, each
      as its name and its children.\<close>
  "find_all names soup = [(name, children). Tag name children \<leftarrow> descendants soup, name \<in> set names]"

definition get_text :: "node list \<Rightarrow> string" where
  \<comment> \<open>\<open>tag.get_text()\<close> from the children of the tag: the text nodes below it,
      concatenated.\<close>
  "get_text children = concat [s. NavigableString s \<leftarrow> descendants children]"

definition index :: "string \<Rightarrow> nat \<Rightarrow> exn + string" where
  \<comment> \<open>\<open>s[i]\<close> for \<open>i \<ge> 0\<close>: a string of one character, or IndexError\<close>
  "index s i = (if i < length s then Inr [s ! i] else Inl (OtherError ''string index out of range''))"

definition py_int :: "string \<Rightarrow> exn + int" where
  \<comment> \<open>\<open>int(s)\<close> for a string of one character: its value when it is a decimal digit,
      ValueError otherwise (also for longer and empty strings, which the extractor never
      passes).\<close>
  "py_int s =
     (case s of
        [c] \<Rightarrow> if c \<in> set ''0123456789'' then Inr (int (of_char c) - 48)
               else Inl (OtherError (''invalid literal for int() with base 10: '' @
                                     [CHR 0x27] @ s @ [CHR 0x27]))
      | _ \<Rightarrow> Inl (OtherError (''invalid literal for int() with base 10: '' @
                            [CHR 0x27] @ s @ [CHR 0x27])))"

definition heading_names :: "string list" where
  "heading_names = [''h1'', ''h2'', ''h3'', ''h4'', ''h5'', ''h6'']"

definition loop_body :: "string \<times> node list \<Rightarrow> heading list \<Rightarrow> exn + heading list" where
  \<comment> \<open>One turn of the loop of \<open>extract_headings\<close> for the tag \<open>(name, children)\<close>;
      the result is the list \<open>headings\<close> after it.\<close>
  "loop_body tag headings =
     (case index (fst tag) 1 of
        Inl e \<Rightarrow> Inl e
      | Inr c \<Rightarrow>
          (case py_int c of
             Inl e \<Rightarrow> Inl e
           | Inr level \<Rightarrow>
               (let text = strip (get_text (snd tag))
                in if text \<noteq> [] \<and> \<not> contains ''[edit]'' text
                   then (let text = strip (replace ''[edit]'' [] text)
                         in Inr (headings @ [(level, text)]))
                   else Inr headings)))"

fun for_loop :: "(string \<times> node list) list \<Rightarrow> heading list \<Rightarrow> exn + heading list" where
  "for_loop [] headings = Inr headings"
| "for_loop (tag # tags) headings =
     (case loop_body tag headings of
        Inl e \<Rightarrow> Inl e
      | Inr headings' \<Rightarrow> for_loop tags headings')"

definition extract_headings :: "html_parser \<Rightarrow> string \<Rightarrow> exn + heading list" where
  \<comment> \<open>The call of the parser is not inside a \<open>try\<close>: what it raises leaves the function.\<close>
  "extract_headings BeautifulSoup html_content =
     (case BeautifulSoup html_content of
        Inl e \<Rightarrow> Inl e
      | Inr soup \<Rightarrow> for_loop (find_all heading_names soup) [])"

definition emitted :: "string \<times> node list \<Rightarrow> heading list" where
  \<comment> \<open>What one turn of the loop appends for a tag: the turn run on the empty list.
      Used to state what the loop as a whole returns.\<close>
  "emitted tag = (case loop_body tag [] of Inl e \<Rightarrow> [] | Inr headings \<Rightarrow> headings)"

definition level_of :: "string \<Rightarrow> int" where
  \<comment> \<open>The value of \<open>int(name[1])\<close> where the second character is a digit.\<close>
  "level_of name = int (of_char (name ! 1)) - 48"

section \<open>The request handler\<close>

definition get_country_outline :: "http_get \<Rightarrow> html_parser \<Rightarrow> string \<Rightarrow> exn + string" where
  \<comment> \<open>\<open>Inr body\<close> is the plain-text response with that body; \<open>Inl e\<close> would be an
      exception leaving the handler.\<close>
  "get_country_outline requests_get BeautifulSoup country =
     (case (case fetch_wikipedia_page requests_get country of
              Inl e \<Rightarrow> Inl e
            | Inr html_content \<Rightarrow>
                (case extract_headings BeautifulSoup html_content of
                   Inl e \<Rightarrow> Inl e
                 | Inr headings \<Rightarrow> Inr (generate_markdown_outline country headings))) of
        Inr outline \<Rightarrow> Inr outline
      | Inl (HTTPError code msg) \<Rightarrow>
          if code = 404
          then Inr (''Error: Wikipedia page not found for '' @ [CHR 0x27] @ country @ [CHR 0x27])
          else Inr (''Error fetching Wikipedia page: '' @ msg)
      | Inl (OtherError msg) \<Rightarrow> Inr (''Error: '' @ msg))"

section \<open>Properties of the string operations\<close>

lemma contains_sublist: "contains sub s = sublist sub s"
  by (induction s) (simp_all add: sublist_Cons_right)

lemma sublist_dropWhile:
  "sublist sub s \<Longrightarrow> sub \<noteq> [] \<Longrightarrow> \<not> P (hd sub) \<Longrightarrow> sublist sub (dropWhile P s)"
proof (induction s)
  case Nil
  then show ?case by simp
next
  case (Cons c cs)
  show ?case
  proof (cases "P c")
    case True
    have "\<not> prefix sub (c # cs)"
      using Cons.prems True by (cases sub) auto
    with Cons.prems have "sublist sub cs" by (simp add: sublist_Cons_right)
    with Cons True show ?thesis by simp
  next
    case False
    with Cons.prems show ?thesis by simp
  qed
qed

lemma replace_from_absent: "\<not> sublist old s \<Longrightarrow> replace_from old new s = s"
  by (induction s) (auto simp: sublist_Cons_right)

lemma replace_absent: "\<not> contains old s \<Longrightarrow> replace old new s = s"
  by (auto simp: replace_def contains_sublist replace_from_absent)

lemma lstrip_fixed: "lstrip s = s \<longleftrightarrow> s = [] \<or> \<not> isspace (hd s)"
  unfolding lstrip_def by (rule dropWhile_eq_self_iff)

lemma rstrip_fixed: "rstrip s = s \<longleftrightarrow> s = [] \<or> \<not> isspace (last s)"
proof -
  have "rstrip s = s \<longleftrightarrow> dropWhile isspace (rev s) = rev s"
    unfolding rstrip_def by (metis rev_rev_ident)
  also have "\<dots> \<longleftrightarrow> rev s = [] \<or> \<not> isspace (hd (rev s))"
    by (rule dropWhile_eq_self_iff)
  finally show ?thesis by (auto simp: hd_rev)
qed

lemma rstrip_last: "rstrip s \<noteq> [] \<Longrightarrow> \<not> isspace (last (rstrip s))"
  unfolding rstrip_def by (simp add: last_rev hd_dropWhile)

lemma rstrip_prefix: "prefix (rstrip s) s"
proof -
  have "rev s = takeWhile isspace (rev s) @ dropWhile isspace (rev s)" by simp
  then have "s = rev (dropWhile isspace (rev s)) @ rev (takeWhile isspace (rev s))"
    by (metis rev_append rev_rev_ident)
  then show ?thesis unfolding rstrip_def by (metis prefixI)
qed

lemma rstrip_hd: "rstrip s \<noteq> [] \<Longrightarrow> hd (rstrip s) = hd s"
proof -
  assume ne: "rstrip s \<noteq> []"
  obtain zs where "s = rstrip s @ zs" using rstrip_prefix [of s] by (auto simp: prefix_def)
  then have "hd s = hd (rstrip s @ zs)" by simp
  also have "\<dots> = hd (rstrip s)" using ne by (rule hd_append2)
  finally show ?thesis by simp
qed

lemma strip_hd: "strip s \<noteq> [] \<Longrightarrow> \<not> isspace (hd (strip s))"
proof -
  assume ne: "strip s \<noteq> []"
  then have "lstrip s \<noteq> []" by (auto simp: strip_def rstrip_def)
  then have "\<not> isspace (hd (lstrip s))" unfolding lstrip_def by (simp add: hd_dropWhile)
  with ne show ?thesis by (simp add: strip_def rstrip_hd)
qed

lemma strip_last: "strip s \<noteq> [] \<Longrightarrow> \<not> isspace (last (strip s))"
  unfolding strip_def by (rule rstrip_last)

lemma strip_fixed: "strip s = s \<longleftrightarrow> s = [] \<or> (\<not> isspace (hd s) \<and> \<not> isspace (last s))"
proof (cases "s = []")
  case True
  then show ?thesis by (simp add: strip_def lstrip_def rstrip_def)
next
  case False
  show ?thesis
  proof
    assume "strip s = s"
    with False strip_hd [of s] strip_last [of s] show "s = [] \<or> (\<not> isspace (hd s) \<and> \<not> isspace (last s))"
      by simp
  next
    assume "s = [] \<or> (\<not> isspace (hd s) \<and> \<not> isspace (last s))"
    with False have "lstrip s = s" "rstrip s = s" by (simp_all add: lstrip_fixed rstrip_fixed)
    then show "strip s = s" by (simp add: strip_def)
  qed
qed

lemma strip_idem: "strip (strip s) = strip s"
  using strip_hd [of s] strip_last [of s] by (auto simp: strip_fixed)

lemma sublist_rstrip:
  assumes "sublist sub s" "sub \<noteq> []" "\<not> isspace (last sub)"
  shows "sublist sub (rstrip s)"
proof -
  have "sublist (rev sub) (rev s)" using assms(1) by simp
  moreover have "rev sub \<noteq> []" "\<not> isspace (hd (rev sub))" using assms by (simp_all add: hd_rev)
  ultimately have "sublist (rev sub) (dropWhile isspace (rev s))" by (rule sublist_dropWhile)
  then have "sublist (rev (rev sub)) (rev (dropWhile isspace (rev s)))"
    by (subst sublist_rev)
  then show ?thesis by (simp add: rstrip_def)
qed

lemma contains_strip:
  assumes "contains sub s" "sub \<noteq> []" "\<not> isspace (hd sub)" "\<not> isspace (last sub)"
  shows "contains sub (strip s)"
  using assms unfolding contains_sublist strip_def lstrip_def
  by (intro sublist_rstrip sublist_dropWhile)

lemma foldl_snoc_map: "foldl (\<lambda>acc x. acc @ [f x]) acc xs = acc @ map f xs"
  by (induction xs arbitrary: acc) simp_all

lemma foldl_markdown_lines:
  "foldl (\<lambda>markdown_lines (level, text).
            let markdown_prefix = repeat ''#'' level
            in markdown_lines @ [markdown_prefix @ '' '' @ text]) acc headings =
   acc @ map (\<lambda>(level, text). repeat ''#'' level @ '' '' @ text) headings"
  by (induction headings arbitrary: acc) (simp_all add: split_def)

section \<open>Properties of the extraction loop\<close>

lemma find_all_Nil: "find_all names [] = []"
  by (simp add: find_all_def descendants_def)

lemma find_all_append: "find_all names (xs @ ys) = find_all names xs @ find_all names ys"
  by (simp add: find_all_def descendants_def)

lemma find_all_Tag:
  "find_all names (Tag name children # rest) =
     (if name \<in> set names then [(name, children)] else []) @
     find_all names children @ find_all names rest"
  by (simp add: find_all_def descendants_def)

lemma find_all_NavigableString: "find_all names (NavigableString s # rest) = find_all names rest"
  by (simp add: find_all_def descendants_def)

lemma find_all_Comment: "find_all names (Comment s # rest) = find_all names rest"
  by (simp add: find_all_def descendants_def)

lemma find_all_names: "tag \<in> set (find_all names soup) \<Longrightarrow> fst tag \<in> set names"
  by (auto simp: find_all_def split: node.splits if_splits)

lemma heading_name_level:
  assumes "name \<in> set heading_names"
  shows "index name 1 = Inr [name ! 1]" and "py_int [name ! 1] = Inr (level_of name)"
    and "1 \<le> level_of name" and "level_of name \<le> 6"
  using assms by (auto simp: heading_names_def index_def py_int_def level_of_def)

lemma loop_body_heading:
  assumes "fst tag \<in> set heading_names"
  shows "loop_body tag headings =
           Inr (headings @
             (if strip (get_text (snd tag)) \<noteq> [] \<and> \<not> contains ''[edit]'' (strip (get_text (snd tag)))
              then [(level_of (fst tag), strip (get_text (snd tag)))] else []))"
  using heading_name_level [OF assms]
  by (simp add: loop_body_def replace_absent strip_idem)

lemma emitted_heading:
  assumes "fst tag \<in> set heading_names"
  shows "emitted tag =
           (if strip (get_text (snd tag)) \<noteq> [] \<and> \<not> contains ''[edit]'' (strip (get_text (snd tag)))
            then [(level_of (fst tag), strip (get_text (snd tag)))] else [])"
  unfolding emitted_def loop_body_heading [OF assms] by simp

lemma loop_body_emitted:
  "fst tag \<in> set heading_names \<Longrightarrow> loop_body tag headings = Inr (headings @ emitted tag)"
  by (simp add: loop_body_heading emitted_heading)

lemma for_loop_emitted:
  "(\<And>tag. tag \<in> set tags \<Longrightarrow> fst tag \<in> set heading_names) \<Longrightarrow>
   for_loop tags headings = Inr (headings @ concat (map emitted tags))"
  by (induction tags arbitrary: headings) (simp_all add: loop_body_emitted)

lemma extract_headings_emitted:
  "extract_headings BeautifulSoup html_content =
     (case BeautifulSoup html_content of
        Inl e \<Rightarrow> Inl e
      | Inr soup \<Rightarrow> Inr (concat (map emitted (find_all heading_names soup))))"
  by (simp add: extract_headings_def for_loop_emitted find_all_names split: sum.splits)

lemma extract_headings_Inr:
  "BeautifulSoup html_content = Inr soup \<Longrightarrow>
   extract_headings BeautifulSoup html_content =
     Inr (concat (map emitted (find_all heading_names soup)))"
  by (simp add: extract_headings_emitted)

lemma extract_headings_Inl:
  "extract_headings BeautifulSoup html_content = Inl e \<longleftrightarrow> BeautifulSoup html_content = Inl e"
  by (simp add: extract_headings_emitted split: sum.splits)

lemmas eval_extract =
  extract_headings_def find_all_def descendants_def heading_names_def loop_body_def index_def
  py_int_def get_text_def strip_def lstrip_def rstrip_def isspace_def

lemma emitted_member:
  assumes "fst tag \<in> set heading_names" "(level, text) \<in> set (emitted tag)"
  shows "level = level_of (fst tag)" "text = strip (get_text (snd tag))" "text \<noteq> []"
    "\<not> contains ''[edit]'' text"
  using assms(2) unfolding emitted_heading [OF assms(1)] by (auto split: if_splits)

lemma extract_headings_member:
  assumes "extract_headings BeautifulSoup html_content = Inr headings"
    and "(level, text) \<in> set headings"
  obtains soup tag where "BeautifulSoup html_content = Inr soup"
    and "tag \<in> set (find_all heading_names soup)"
    and "fst tag \<in> set heading_names" and "(level, text) \<in> set (emitted tag)"
proof -
  from assms(1) obtain soup where s: "BeautifulSoup html_content = Inr soup"
    and h: "headings = concat (map emitted (find_all heading_names soup))"
    by (auto simp: extract_headings_emitted split: sum.splits)
  from assms(2) h obtain tag where t: "tag \<in> set (find_all heading_names soup)"
      "(level, text) \<in> set (emitted tag)"
    by auto
  from t(1) have "fst tag \<in> set heading_names" by (rule find_all_names)
  with s t that show thesis by blast
qed

lemma all_space_strip:
  assumes "\<And>c. c \<in> set s \<Longrightarrow> isspace c"
  shows "strip s = []"
proof -
  have "\<forall>c \<in> set s. isspace c" using assms by blast
  then have d: "dropWhile isspace s = []" by (rule iffD2 [OF dropWhile_eq_Nil_conv])
  show ?thesis unfolding strip_def lstrip_def rstrip_def d by simp
qed

lemma edit_strip:
  "contains ''[edit]'' s \<Longrightarrow> contains ''[edit]'' (strip s)"
  by (rule contains_strip) (simp_all add: isspace_def)

lemma concat_map_filter_Nil:
  "(\<And>x. x \<in> set xs \<Longrightarrow> \<not> P x \<Longrightarrow> f x = []) \<Longrightarrow>
   concat (map f (filter P xs)) = concat (map f xs)"
  by (induction xs) auto

lemma lstrip_append_space:
  assumes "\<And>c. c \<in> set l \<Longrightarrow> isspace c"
  shows "lstrip (l @ s) = lstrip s"
  unfolding lstrip_def using assms by (rule dropWhile_append2)

lemma rstrip_append_space:
  assumes "\<And>c. c \<in> set r \<Longrightarrow> isspace c"
  shows "rstrip (s @ r) = rstrip s"
proof -
  have "dropWhile isspace (rev r @ rev s) = dropWhile isspace (rev s)"
    using assms by (intro dropWhile_append2) simp
  then show ?thesis by (simp add: rstrip_def)
qed

lemma strip_append_space:
  assumes r: "\<And>c. c \<in> set r \<Longrightarrow> isspace c"
  shows "strip (s @ r) = strip s"
proof (cases "\<forall>c \<in> set s. isspace c")
  case True
  then have "strip s = []" by (intro all_space_strip) blast
  moreover have "strip (s @ r) = []" using True r by (intro all_space_strip) auto
  ultimately show ?thesis by simp
next
  case False
  then obtain x where "x \<in> set s" "\<not> isspace x" by blast
  then have "lstrip (s @ r) = lstrip s @ r"
    unfolding lstrip_def by (rule dropWhile_append1)
  then show ?thesis by (simp add: strip_def rstrip_append_space [OF r])
qed

lemma strip_padded:
  assumes "\<And>c. c \<in> set l \<Longrightarrow> isspace c" "\<And>c. c \<in> set r \<Longrightarrow> isspace c"
  shows "strip (l @ s @ r) = strip s"
proof -
  have "strip (l @ s @ r) = rstrip (lstrip (s @ r))"
    by (simp add: strip_def lstrip_append_space [OF assms(1)])
  also have "\<dots> = strip (s @ r)" by (simp add: strip_def)
  also have "\<dots> = strip s" using assms(2) by (rule strip_append_space)
  finally show ?thesis .
qed

lemma replace_space_no_space: "CHR '' '' \<notin> set (replace '' '' ''_'' s)"
proof -
  have "CHR '' '' \<notin> set (replace_from '' '' ''_'' s)"
    by (induction s) auto
  then show ?thesis by (simp add: replace_def)
qed

lemma fetch_wikipedia_page_cong:
  assumes "\<And>headers. g1 (wikipedia_url country) headers = g2 (wikipedia_url country) headers"
  shows "fetch_wikipedia_page g1 country = fetch_wikipedia_page g2 country"
  by (simp add: fetch_wikipedia_page_def assms)

lemma get_country_outline_fetch_error:
  "fetch_wikipedia_page requests_get country = Inl (HTTPError code msg) \<Longrightarrow>
   get_country_outline requests_get BeautifulSoup country =
     (if code = 404
      then Inr (''Error: Wikipedia page not found for '' @ [CHR 0x27] @ country @ [CHR 0x27])
      else Inr (''Error fetching Wikipedia page: '' @ msg))"
  "fetch_wikipedia_page requests_get country = Inl (OtherError msg) \<Longrightarrow>
   get_country_outline requests_get BeautifulSoup country = Inr (''Error: '' @ msg)"
  by (simp_all add: get_country_outline_def)

lemma get_country_outline_parser_error:
  "fetch_wikipedia_page requests_get country = Inr html_content \<Longrightarrow>
   BeautifulSoup html_content = Inl (OtherError msg) \<Longrightarrow>
   get_country_outline requests_get BeautifulSoup country = Inr (''Error: '' @ msg)"
  by (simp add: get_country_outline_def extract_headings_def)

lemma get_country_outline_returns:
  "\<exists>body. get_country_outline requests_get BeautifulSoup country = Inr body"
  by (simp add: get_country_outline_def split: sum.splits exn.splits)

lemma fetch_wikipedia_page_status:
  assumes "\<And>headers. requests_get (wikipedia_url country) headers = Inr r"
    and "400 \<le> status_code r" "status_code r < 600"
  shows "\<exists>msg. fetch_wikipedia_page requests_get country = Inl (HTTPError (status_code r) msg)"
  using assms by (auto simp: fetch_wikipedia_page_def raise_for_status_def)

section \<open>The renderer\<close>

text \<open>
  C9.  The renderer does not look at its \<open>country\<close> argument: two calls with the same
  headings return the same outline, whatever the two country strings are.
\<close>

theorem generate_markdown_outline_ignores_country:
  "generate_markdown_outline c1 hs = generate_markdown_outline c2 hs"
  by (simp add: generate_markdown_outline_def)

text \<open>
  C2, as stated: rendering no headings gives exactly \<open>## Contents\<close>.  The code appends the
  header as \<open>"## Contents\n"\<close>, so the result ends in a newline and the statement fails.
\<close>

theorem generate_markdown_outline_empty_counterexample:
  "generate_markdown_outline ''Vanuatu'' [] \<noteq> ''## Contents''"
  by (simp add: generate_markdown_outline_def join_def)

text \<open>
  C2, amended.  The renderer joins the line \<open>## Contents\<close> followed by a newline and one
  line per heading (\<open>level\<close> times \<open>#\<close>, a space, the text) with a double newline
  between consecutive lines.  So no headings render to \<open>"## Contents\n"\<close>, the heading
  \<open>(2, "Intro")\<close> to \<open>"## Contents\n\n\n## Intro"\<close>, and \<open>(1, "A"), (3, "B")\<close> to
  \<open>"## Contents\n\n\n# A\n\n### B"\<close>.
\<close>

theorem generate_markdown_outline_lines:
  "generate_markdown_outline country headings =
     join [CHR 0x0A, CHR 0x0A]
       ((''## Contents'' @ [CHR 0x0A]) #
        map (\<lambda>(level, text). repeat ''#'' level @ '' '' @ text) headings)
   \<and> generate_markdown_outline country [] = ''## Contents'' @ [CHR 0x0A]
   \<and> generate_markdown_outline country [(2, ''Intro'')] =
       ''## Contents'' @ [CHR 0x0A, CHR 0x0A, CHR 0x0A] @ ''## Intro''
   \<and> generate_markdown_outline country [(1, ''A''), (3, ''B'')] =
       ''## Contents'' @ [CHR 0x0A, CHR 0x0A, CHR 0x0A] @ ''# A'' @ [CHR 0x0A, CHR 0x0A] @ ''### B''"
proof (intro conjI)
  show "generate_markdown_outline country headings =
     join [CHR 0x0A, CHR 0x0A]
       ((''## Contents'' @ [CHR 0x0A]) #
        map (\<lambda>(level, text). repeat ''#'' level @ '' '' @ text) headings)"
    unfolding generate_markdown_outline_def foldl_markdown_lines by simp
  show "generate_markdown_outline country [] = ''## Contents'' @ [CHR 0x0A]"
    by (simp add: generate_markdown_outline_def join_def)
  show "generate_markdown_outline country [(2, ''Intro'')] =
     ''## Contents'' @ [CHR 0x0A, CHR 0x0A, CHR 0x0A] @ ''## Intro''"
    by (simp add: generate_markdown_outline_def join_def repeat_def eval_nat_numeral)
  show "generate_markdown_outline country [(1, ''A''), (3, ''B'')] =
     ''## Contents'' @ [CHR 0x0A, CHR 0x0A, CHR 0x0A] @ ''# A'' @ [CHR 0x0A, CHR 0x0A] @ ''### B''"
    by (simp add: generate_markdown_outline_def join_def repeat_def eval_nat_numeral)
qed

section \<open>The extractor\<close>

text \<open>
  C4, as stated: extraction never raises, whatever the input.  The extractor calls the
  parser outside any \<open>try\<close>, so on markup that the parser rejects, such as
  \<open><h2>A</h2><![x]>\<close>, the exception of the parser leaves the extractor.
\<close>

theorem extract_headings_rejected_markup_counterexample:
  "extract_headings
     (\<lambda>html. if html = ''<h2>A</h2><![x]>''
              then Inl (OtherError ''The markup you provided was rejected by the parser.'')
              else Inr [])
     ''<h2>A</h2><![x]>'' =
   Inl (OtherError ''The markup you provided was rejected by the parser.'')"
  by (simp add: extract_headings_def)

text \<open>
  C4, amended.  Extraction raises exactly when the parser raises, and then it raises the
  exception of the parser.  On every input for which the parser returns a tree, also the
  empty tree of an empty input and the partial tree of markup it tolerates, the extractor
  returns a list of headings: the two operations of the loop that can raise,
  \<open>tag.name[1]\<close> and \<open>int(...)\<close>, only see the names \<open>h1\<close> to \<open>h6\<close>.
\<close>

theorem extract_headings_raises_only_parser_errors:
  "(BeautifulSoup html_content = Inr soup
      \<longrightarrow> (\<exists>headings. extract_headings BeautifulSoup html_content = Inr headings))
   \<and> (BeautifulSoup html_content = Inl e
      \<longrightarrow> extract_headings BeautifulSoup html_content = Inl e)
   \<and> (extract_headings BeautifulSoup html_content = Inl e
      \<longrightarrow> BeautifulSoup html_content = Inl e)
   \<and> (\<exists>headings. for_loop (find_all heading_names soup) [] = Inr headings)
   \<and> extract_headings (\<lambda>html. Inr []) html_content = Inr []"
proof (intro conjI impI)
  assume "BeautifulSoup html_content = Inr soup"
  then show "\<exists>headings. extract_headings BeautifulSoup html_content = Inr headings"
    by (simp add: extract_headings_Inr)
next
  assume "BeautifulSoup html_content = Inl e"
  then show "extract_headings BeautifulSoup html_content = Inl e"
    by (simp add: extract_headings_Inl)
next
  assume "extract_headings BeautifulSoup html_content = Inl e"
  then show "BeautifulSoup html_content = Inl e"
    by (simp add: extract_headings_Inl)
next
  show "\<exists>headings. for_loop (find_all heading_names soup) [] = Inr headings"
    by (simp add: for_loop_emitted find_all_names)
  show "extract_headings (\<lambda>html. Inr []) html_content = Inr []"
    by (simp add: extract_headings_def find_all_Nil)
qed

theorem extract_headings_raises_only_parser_errors_witness:
  "(\<lambda>html. if html = ''<![x]>'' then Inl (OtherError ''rejected'')
            else Inr [Tag ''h2'' [NavigableString ''A'']]) ''<h2>A</h2>'' =
     Inr [Tag ''h2'' [NavigableString ''A'']]
   \<and> extract_headings
        (\<lambda>html. if html = ''<![x]>'' then Inl (OtherError ''rejected'')
                 else Inr [Tag ''h2'' [NavigableString ''A'']]) ''<h2>A</h2>'' = Inr [(2, ''A'')]
   \<and> (\<lambda>html. if html = ''<![x]>'' then Inl (OtherError ''rejected'')
              else Inr [Tag ''h2'' [NavigableString ''A'']]) ''<![x]>'' =
       (Inl (OtherError ''rejected'') :: exn + node list)
   \<and> extract_headings
        (\<lambda>html. if html = ''<![x]>'' then Inl (OtherError ''rejected'')
                 else Inr [Tag ''h2'' [NavigableString ''A'']]) ''<![x]>'' =
       Inl (OtherError ''rejected'')"
proof -
  let ?B = "\<lambda>html. if html = ''<![x]>'' then Inl (OtherError ''rejected'')
                   else Inr [Tag ''h2'' [NavigableString ''A'']]"
  have ok: "?B ''<h2>A</h2>'' = Inr [Tag ''h2'' [NavigableString ''A'']]" by simp
  have bad: "?B ''<![x]>'' = Inl (OtherError ''rejected'')" by simp
  have e: "extract_headings ?B ''<h2>A</h2>'' = Inr [(2, ''A'')]"
    by (simp add: eval_extract replace_def Let_def)
  have r: "extract_headings ?B ''<![x]>'' = Inl (OtherError ''rejected'')"
    using extract_headings_raises_only_parser_errors
      [where BeautifulSoup = ?B and html_content = "''<![x]>''" and e = "OtherError ''rejected''"]
      bad by simp
  have t: "\<exists>headings. extract_headings ?B ''<h2>A</h2>'' = Inr headings"
    using extract_headings_raises_only_parser_errors
      [where BeautifulSoup = ?B and html_content = "''<h2>A</h2>''"
         and soup = "[Tag ''h2'' [NavigableString ''A'']]"]
      ok by simp
  show ?thesis using e r t by simp
qed

text \<open>
  C5.  The extractor returns the kept headings in document order, without sorting and
  without removing duplicates: its result is the concatenation, over the heading tags
  that \<open>find_all\<close> lists, of what the loop appends for each tag (at most one heading),
  and \<open>find_all\<close> lists a tag before the tags below it and those before the tags that
  follow it.  So the headings H2 Intro, H3 History, H2 Geography come out as
  \<open>[(2, Intro), (3, History), (2, Geography)]\<close>, and a heading that occurs twice comes
  out twice, each at its place.
\<close>

theorem extract_headings_document_order:
  "extract_headings BeautifulSoup html_content =
     (case BeautifulSoup html_content of
        Inl e \<Rightarrow> Inl e
      | Inr soup \<Rightarrow> Inr (concat (map emitted (find_all heading_names soup))))
   \<and> length (emitted tag) \<le> 1
   \<and> find_all names [] = []
   \<and> find_all names (Tag name children # rest) =
       (if name \<in> set names then [(name, children)] else []) @
       find_all names children @ find_all names rest
   \<and> find_all names (NavigableString s # rest) = find_all names rest
   \<and> find_all names (Comment s # rest) = find_all names rest
   \<and> extract_headings
        (\<lambda>html. Inr [Tag ''h2'' [NavigableString ''Intro''],
                  Tag ''h3'' [NavigableString ''History''],
                  Tag ''h2'' [NavigableString ''Geography'']]) html_content =
       Inr [(2, ''Intro''), (3, ''History''), (2, ''Geography'')]
   \<and> extract_headings
        (\<lambda>html. Inr [Tag ''div'' [Tag ''h3'' [NavigableString ''Notes'']],
                  Tag ''h2'' [NavigableString ''Flora''],
                  Tag ''h3'' [NavigableString ''Notes'']]) html_content =
       Inr [(3, ''Notes''), (2, ''Flora''), (3, ''Notes'')]"
proof (intro conjI)
  show "length (emitted tag) \<le> 1"
    by (auto simp: emitted_def loop_body_def Let_def split: sum.splits if_splits)
  show "extract_headings
        (\<lambda>html. Inr [Tag ''h2'' [NavigableString ''Intro''],
                  Tag ''h3'' [NavigableString ''History''],
                  Tag ''h2'' [NavigableString ''Geography'']]) html_content =
       Inr [(2, ''Intro''), (3, ''History''), (2, ''Geography'')]"
    by (simp add: eval_extract replace_def Let_def)
  show "extract_headings
        (\<lambda>html. Inr [Tag ''div'' [Tag ''h3'' [NavigableString ''Notes'']],
                  Tag ''h2'' [NavigableString ''Flora''],
                  Tag ''h3'' [NavigableString ''Notes'']]) html_content =
       Inr [(3, ''Notes''), (2, ''Flora''), (3, ''Notes'')]"
    by (simp add: eval_extract replace_def Let_def)
qed (simp_all only: extract_headings_emitted find_all_Nil find_all_Tag find_all_NavigableString
       find_all_Comment)

text \<open>
  C6.  Every heading that the extractor returns has a level from 1 to 6 and a text that is
  not empty after trimming and after removing \<open>[edit]\<close> and trimming again.  A heading
  tag whose text is only whitespace adds no heading: the turn of the loop leaves the list
  as it was.
\<close>

theorem extract_headings_invariant:
  "(extract_headings BeautifulSoup html_content = Inr headings \<and> (level, text) \<in> set headings
      \<longrightarrow> 1 \<le> level \<and> level \<le> 6 \<and> strip text \<noteq> [] \<and> strip (replace ''[edit]'' [] text) \<noteq> []
          \<and> strip (replace ''[edit]'' [] (strip text)) \<noteq> [])
   \<and> (name \<in> set heading_names \<and> (\<forall>c \<in> set (get_text children). isspace c)
      \<longrightarrow> loop_body (name, children) acc = Inr acc \<and> emitted (name, children) = [])"
proof (intro conjI impI)
  assume a: "extract_headings BeautifulSoup html_content = Inr headings \<and> (level, text) \<in> set headings"
  then obtain tag where tag: "fst tag \<in> set heading_names" "(level, text) \<in> set (emitted tag)"
    by (blast elim: extract_headings_member)
  note m = emitted_member [OF tag]
  show "1 \<le> level" "level \<le> 6"
    using m(1) heading_name_level(3,4) [OF tag(1)] by simp_all
  have st: "strip text = text" using m(2) by (simp add: strip_idem)
  have rp: "replace ''[edit]'' [] text = text" using m(4) by (rule replace_absent)
  show "strip text \<noteq> []" "strip (replace ''[edit]'' [] text) \<noteq> []"
    "strip (replace ''[edit]'' [] (strip text)) \<noteq> []"
    using m(3) by (simp_all add: st rp)
next
  assume b: "name \<in> set heading_names \<and> (\<forall>c \<in> set (get_text children). isspace c)"
  then have "strip (get_text children) = []" by (simp add: all_space_strip)
  with b show "loop_body (name, children) acc = Inr acc" "emitted (name, children) = []"
    by (simp_all add: loop_body_heading emitted_heading)
qed

theorem extract_headings_invariant_witness:
  "extract_headings (\<lambda>html. Inr [Tag ''h2'' [NavigableString '' Intro ''],
                               Tag ''h3'' [NavigableString ''   '']]) [] = Inr [(2, ''Intro'')]
   \<and> (2, ''Intro'') \<in> set [(2 :: int, ''Intro'')]
   \<and> strip ''Intro'' \<noteq> [] \<and> strip (replace ''[edit]'' [] ''Intro'') \<noteq> []
   \<and> ''h3'' \<in> set heading_names \<and> list_all isspace (get_text [NavigableString ''   ''])
   \<and> loop_body (''h3'', [NavigableString ''   '']) [(2, ''Intro'')] = Inr [(2, ''Intro'')]"
proof -
  have e: "extract_headings (\<lambda>html. Inr [Tag ''h2'' [NavigableString '' Intro ''],
                               Tag ''h3'' [NavigableString ''   '']]) [] = Inr [(2, ''Intro'')]"
    by (simp add: eval_extract replace_def Let_def)
  have h: "''h3'' \<in> set heading_names \<and> (\<forall>c \<in> set (get_text [NavigableString ''   '']). isspace c)"
    by (simp add: heading_names_def get_text_def descendants_def isspace_def)
  have l: "list_all isspace (get_text [NavigableString ''   ''])"
    using h by (simp add: list_all_iff)
  show ?thesis
    using e h l
      extract_headings_invariant [of "\<lambda>html. Inr [Tag ''h2'' [NavigableString '' Intro ''],
                               Tag ''h3'' [NavigableString ''   '']]" "[]" "[(2, ''Intro'')]" 2 "''Intro''"
         "''h3''" "[NavigableString ''   '']" "[(2, ''Intro'')]"]
    by simp
qed

text \<open>
  C1.  The claim: a heading tag whose text is \<open>History[edit]\<close> yields the heading
  \<open>(level, History)\<close>.  The code tests \<open>'[edit]' not in text\<close> before it removes the
  marker, so the heading is skipped: on the tree of \<open><h2>History[edit]</h2>\<close> the
  extractor returns no heading at all.
\<close>

theorem extract_headings_History_edit_dropped:
  "extract_headings (\<lambda>html. Inr [Tag ''h2'' [NavigableString ''History[edit]'']])
     ''<h2>History[edit]</h2>'' = Inr []"
  by (simp add: eval_extract)

text \<open>
  C10.  No heading that the extractor returns contains \<open>[edit]\<close>, and a heading tag
  whose text contains \<open>[edit]\<close> anywhere is left out altogether: the turn of the loop
  for it leaves the list as it was, and the extractor returns what it would return had
  such tags not been in the document.
\<close>

theorem extract_headings_no_edit_marker:
  "(extract_headings BeautifulSoup html_content = Inr headings \<and> (level, text) \<in> set headings
      \<longrightarrow> \<not> contains ''[edit]'' text)
   \<and> (name \<in> set heading_names \<and> contains ''[edit]'' (get_text children)
      \<longrightarrow> loop_body (name, children) acc = Inr acc)
   \<and> extract_headings BeautifulSoup html_content =
       (case BeautifulSoup html_content of
          Inl e \<Rightarrow> Inl e
        | Inr soup \<Rightarrow>
            Inr (concat (map emitted
              (filter (\<lambda>tag. \<not> contains ''[edit]'' (get_text (snd tag)))
                 (find_all heading_names soup)))))"
proof (intro conjI impI)
  assume a: "extract_headings BeautifulSoup html_content = Inr headings \<and> (level, text) \<in> set headings"
  then obtain tag where tag: "fst tag \<in> set heading_names" "(level, text) \<in> set (emitted tag)"
    by (blast elim: extract_headings_member)
  then show "\<not> contains ''[edit]'' text" by (rule emitted_member(4))
next
  assume b: "name \<in> set heading_names \<and> contains ''[edit]'' (get_text children)"
  then have "contains ''[edit]'' (strip (get_text children))" by (simp add: edit_strip)
  with b show "loop_body (name, children) acc = Inr acc"
    by (simp add: loop_body_heading)
next
  have "emitted tag = []"
    if "tag \<in> set (find_all heading_names soup)"
      and "\<not> \<not> contains ''[edit]'' (get_text (snd tag))" for tag soup
  proof -
    from that(1) have n: "fst tag \<in> set heading_names" by (rule find_all_names)
    from that(2) have "contains ''[edit]'' (strip (get_text (snd tag)))" by (simp add: edit_strip)
    then show ?thesis by (simp add: emitted_heading [OF n])
  qed
  then have "concat (map emitted
         (filter (\<lambda>tag. \<not> contains ''[edit]'' (get_text (snd tag)))
            (find_all heading_names soup))) =
       concat (map emitted (find_all heading_names soup))" for soup
    by (intro concat_map_filter_Nil) blast
  then show "extract_headings BeautifulSoup html_content =
       (case BeautifulSoup html_content of
          Inl e \<Rightarrow> Inl e
        | Inr soup \<Rightarrow>
            Inr (concat (map emitted
              (filter (\<lambda>tag. \<not> contains ''[edit]'' (get_text (snd tag)))
                 (find_all heading_names soup)))))"
    by (simp only: extract_headings_emitted)
qed

theorem extract_headings_no_edit_marker_witness:
  "extract_headings (\<lambda>html. Inr [Tag ''h2'' [NavigableString ''Flora''],
                               Tag ''h3'' [NavigableString '' Fauna [edit] '']]) [] = Inr [(2, ''Flora'')]
   \<and> (2, ''Flora'') \<in> set [(2 :: int, ''Flora'')]
   \<and> \<not> contains ''[edit]'' ''Flora''
   \<and> ''h3'' \<in> set heading_names
   \<and> contains ''[edit]'' (get_text [NavigableString '' Fauna [edit] ''])
   \<and> loop_body (''h3'', [NavigableString '' Fauna [edit] '']) [(2, ''Flora'')] = Inr [(2, ''Flora'')]"
proof -
  have e: "extract_headings (\<lambda>html. Inr [Tag ''h2'' [NavigableString ''Flora''],
                               Tag ''h3'' [NavigableString '' Fauna [edit] '']]) [] = Inr [(2, ''Flora'')]"
    by (simp add: eval_extract replace_def Let_def)
  have h: "''h3'' \<in> set heading_names \<and> contains ''[edit]'' (get_text [NavigableString '' Fauna [edit] ''])"
    by (simp add: heading_names_def get_text_def descendants_def)
  show ?thesis
    using e h
      extract_headings_no_edit_marker [of "\<lambda>html. Inr [Tag ''h2'' [NavigableString ''Flora''],
                               Tag ''h3'' [NavigableString '' Fauna [edit] '']]" "[]" "[(2, ''Flora'')]" 2 "''Flora''"
         "''h3''" "[NavigableString '' Fauna [edit] '']" "[(2, ''Flora'')]"]
    by simp
qed

section \<open>The fetcher and the handler\<close>

text \<open>
  C7.  The fetcher builds the URL from the country name by trimming whitespace at both
  ends, replacing every remaining space by an underscore, percent-encoding the result and
  prefixing \<open>https://en.wikipedia.org/wiki/\<close>.  For \<open>United States\<close> the path segment is
  \<open>United_States\<close>, and a character that is not safe in a URL path is written as the
  \<open>%XX\<close> of its UTF-8 bytes; whitespace around the name does not change the URL.
  This URL is the one the fetcher requests: it calls the HTTP client once, with this URL
  and the \<open>User-Agent\<close> header, so a client that answers with the URL it was asked for
  makes the fetcher return \<open>wikipedia_url country\<close>, and the response of the fetcher
  depends on the client at this URL only.
\<close>

theorem wikipedia_url_normalised:
  "wikipedia_url country =
     ''https://en.wikipedia.org/wiki/'' @ quote (replace '' '' ''_'' (strip country))
   \<and> CHR '' '' \<notin> set (replace '' '' ''_'' (strip country))
   \<and> wikipedia_url ''United States'' = ''https://en.wikipedia.org/wiki/United_States''
   \<and> wikipedia_url (''C'' @ [CHR 0xF4] @ ''te d'' @ [CHR 0x27] @ ''Ivoire'') =
       ''https://en.wikipedia.org/wiki/C%C3%B4te_d%27Ivoire''
   \<and> ((\<forall>c \<in> set l. isspace c) \<and> (\<forall>c \<in> set r. isspace c)
        \<longrightarrow> wikipedia_url (l @ country @ r) = wikipedia_url country)
   \<and> ((\<forall>headers. g1 (wikipedia_url country) headers = g2 (wikipedia_url country) headers)
        \<longrightarrow> fetch_wikipedia_page g1 country = fetch_wikipedia_page g2 country)
   \<and> fetch_wikipedia_page requests_get country =
       (case requests_get (wikipedia_url country)
               [(''User-Agent'', ''GlobalEdu Educational Platform/1.0 (Educational Purpose)'')] of
          Inl e \<Rightarrow> Inl e
        | Inr response \<Rightarrow>
            (case raise_for_status response of
               Inl e \<Rightarrow> Inl e
             | Inr u \<Rightarrow> Inr (resp_text response)))
   \<and> fetch_wikipedia_page (\<lambda>url headers. Inl (OtherError url)) country =
       Inl (OtherError (wikipedia_url country))
   \<and> fetch_wikipedia_page
        (\<lambda>url headers. Inr \<lparr>status_code = 200, reason = ''OK'', resp_url = url, resp_text = url\<rparr>)
        country = Inr (wikipedia_url country)
   \<and> fetch_wikipedia_page (\<lambda>url headers. Inl (OtherError url)) ''United States'' =
       Inl (OtherError ''https://en.wikipedia.org/wiki/United_States'')"
proof (intro conjI impI)
  show "wikipedia_url country =
     ''https://en.wikipedia.org/wiki/'' @ quote (replace '' '' ''_'' (strip country))"
    by (simp add: wikipedia_url_def)
  show "CHR '' '' \<notin> set (replace '' '' ''_'' (strip country))"
    by (rule replace_space_no_space)
  show "wikipedia_url ''United States'' = ''https://en.wikipedia.org/wiki/United_States''"
    by code_simp
  show "wikipedia_url (''C'' @ [CHR 0xF4] @ ''te d'' @ [CHR 0x27] @ ''Ivoire'') =
       ''https://en.wikipedia.org/wiki/C%C3%B4te_d%27Ivoire''"
    by code_simp
next
  assume "(\<forall>c \<in> set l. isspace c) \<and> (\<forall>c \<in> set r. isspace c)"
  then have "strip (l @ country @ r) = strip country" by (intro strip_padded) blast+
  then show "wikipedia_url (l @ country @ r) = wikipedia_url country"
    by (simp add: wikipedia_url_def)
next
  assume "\<forall>headers. g1 (wikipedia_url country) headers = g2 (wikipedia_url country) headers"
  then show "fetch_wikipedia_page g1 country = fetch_wikipedia_page g2 country"
    by (intro fetch_wikipedia_page_cong) blast
next
  show "fetch_wikipedia_page requests_get country =
       (case requests_get (wikipedia_url country)
               [(''User-Agent'', ''GlobalEdu Educational Platform/1.0 (Educational Purpose)'')] of
          Inl e \<Rightarrow> Inl e
        | Inr response \<Rightarrow>
            (case raise_for_status response of
               Inl e \<Rightarrow> Inl e
             | Inr u \<Rightarrow> Inr (resp_text response)))"
    by (simp add: fetch_wikipedia_page_def)
  show echo: "fetch_wikipedia_page (\<lambda>url headers. Inl (OtherError url)) country =
       Inl (OtherError (wikipedia_url country))" for country
    by (simp add: fetch_wikipedia_page_def)
  show "fetch_wikipedia_page
        (\<lambda>url headers. Inr \<lparr>status_code = 200, reason = ''OK'', resp_url = url, resp_text = url\<rparr>)
        country = Inr (wikipedia_url country)"
    by (simp add: fetch_wikipedia_page_def raise_for_status_def)
  have "wikipedia_url ''United States'' = ''https://en.wikipedia.org/wiki/United_States''"
    by code_simp
  then show "fetch_wikipedia_page (\<lambda>url headers. Inl (OtherError url)) ''United States'' =
       Inl (OtherError ''https://en.wikipedia.org/wiki/United_States'')"
    by (simp add: echo)
qed

theorem wikipedia_url_normalised_witness:
  "list_all isspace ''  '' \<and> list_all isspace [CHR 0x09, CHR 0x0A]
   \<and> wikipedia_url (''  '' @ ''New Zealand'' @ [CHR 0x09, CHR 0x0A]) = wikipedia_url ''New Zealand''
   \<and> wikipedia_url ''New Zealand'' = ''https://en.wikipedia.org/wiki/New_Zealand''
   \<and> fetch_wikipedia_page (\<lambda>url headers. Inl (OtherError url)) ''New Zealand'' =
       Inl (OtherError ''https://en.wikipedia.org/wiki/New_Zealand'')
   \<and> fetch_wikipedia_page
       (\<lambda>url headers. if url = ''https://en.wikipedia.org/wiki/New_Zealand''
                       then Inl (OtherError url) else Inl (OtherError ''no route'')) ''New Zealand'' =
       Inl (OtherError ''https://en.wikipedia.org/wiki/New_Zealand'')"
proof -
  have u: "wikipedia_url ''New Zealand'' = ''https://en.wikipedia.org/wiki/New_Zealand''"
    by code_simp
  have s: "(\<forall>c \<in> set ''  ''. isspace c) \<and> (\<forall>c \<in> set [CHR 0x09, CHR 0x0A]. isspace c)"
    by (simp add: isspace_def)
  show ?thesis
    using u s
      wikipedia_url_normalised
        [where country = "''New Zealand''" and l = "''  ''" and r = "[CHR 0x09, CHR 0x0A]"
           and ?g1.0 = "\<lambda>url headers. Inl (OtherError url)"
           and ?g2.0 = "\<lambda>url headers. if url = ''https://en.wikipedia.org/wiki/New_Zealand''
                       then Inl (OtherError url) else Inl (OtherError ''no route'')"]
    by simp
qed

text \<open>
  C3.  When the fetch fails with an HTTP error of status 404, the body of the response is
  \<open>Error: Wikipedia page not found for '<country>'\<close> with the country exactly as the
  caller gave it, not trimmed and without underscores; for \<open>country=Atlantis\<close> it is
  \<open>Error: Wikipedia page not found for 'Atlantis'\<close>.
\<close>

theorem get_country_outline_not_found:
  "(fetch_wikipedia_page requests_get country = Inl (HTTPError 404 msg)
      \<longrightarrow> get_country_outline requests_get BeautifulSoup country =
            Inr (''Error: Wikipedia page not found for '' @ [CHR 0x27] @ country @ [CHR 0x27]))
   \<and> ((\<forall>headers. requests_get (wikipedia_url country) headers = Inr r) \<and> status_code r = 404
      \<longrightarrow> get_country_outline requests_get BeautifulSoup country =
            Inr (''Error: Wikipedia page not found for '' @ [CHR 0x27] @ country @ [CHR 0x27]))
   \<and> get_country_outline
        (\<lambda>url headers. Inr \<lparr>status_code = 404, reason = ''Not Found'', resp_url = url, resp_text = []\<rparr>)
        BeautifulSoup ''Atlantis'' =
       Inr (''Error: Wikipedia page not found for '' @ [CHR 0x27] @ ''Atlantis'' @ [CHR 0x27])"
proof (intro conjI impI)
  assume "fetch_wikipedia_page requests_get country = Inl (HTTPError 404 msg)"
  then show "get_country_outline requests_get BeautifulSoup country =
            Inr (''Error: Wikipedia page not found for '' @ [CHR 0x27] @ country @ [CHR 0x27])"
    by (simp add: get_country_outline_fetch_error(1))
next
  assume a: "(\<forall>headers. requests_get (wikipedia_url country) headers = Inr r) \<and> status_code r = 404"
  then obtain m where "fetch_wikipedia_page requests_get country = Inl (HTTPError 404 m)"
    using fetch_wikipedia_page_status [of requests_get country r] by auto
  then show "get_country_outline requests_get BeautifulSoup country =
            Inr (''Error: Wikipedia page not found for '' @ [CHR 0x27] @ country @ [CHR 0x27])"
    by (simp add: get_country_outline_fetch_error(1))
next
  have "\<exists>m. fetch_wikipedia_page
          (\<lambda>url headers. Inr \<lparr>status_code = 404, reason = ''Not Found'', resp_url = url, resp_text = []\<rparr>)
          ''Atlantis'' = Inl (HTTPError 404 m)"
    by (simp add: fetch_wikipedia_page_def raise_for_status_def)
  then obtain m where "fetch_wikipedia_page
          (\<lambda>url headers. Inr \<lparr>status_code = 404, reason = ''Not Found'', resp_url = url, resp_text = []\<rparr>)
          ''Atlantis'' = Inl (HTTPError 404 m)" ..
  then show "get_country_outline
        (\<lambda>url headers. Inr \<lparr>status_code = 404, reason = ''Not Found'', resp_url = url, resp_text = []\<rparr>)
        BeautifulSoup ''Atlantis'' =
       Inr (''Error: Wikipedia page not found for '' @ [CHR 0x27] @ ''Atlantis'' @ [CHR 0x27])"
    by (simp add: get_country_outline_fetch_error(1))
qed

theorem get_country_outline_not_found_witness:
  "fetch_wikipedia_page (\<lambda>url headers. Inl (HTTPError 404 ''gone'')) '' New Zealand '' =
     Inl (HTTPError 404 ''gone'')
   \<and> (\<forall>headers. (\<lambda>url headers. Inr \<lparr>status_code = 404, reason = ''Not Found'', resp_url = url, resp_text = []\<rparr>)
          (wikipedia_url '' New Zealand '') headers =
        Inr \<lparr>status_code = 404, reason = ''Not Found'',
             resp_url = wikipedia_url '' New Zealand '', resp_text = []\<rparr>)
   \<and> get_country_outline (\<lambda>url headers. Inl (HTTPError 404 ''gone'')) (\<lambda>html. Inr []) '' New Zealand '' =
       Inr (''Error: Wikipedia page not found for '' @ [CHR 0x27] @ '' New Zealand '' @ [CHR 0x27])
   \<and> get_country_outline
        (\<lambda>url headers. Inr \<lparr>status_code = 404, reason = ''Not Found'', resp_url = url, resp_text = []\<rparr>)
        (\<lambda>html. Inr []) '' New Zealand '' =
       Inr (''Error: Wikipedia page not found for '' @ [CHR 0x27] @ '' New Zealand '' @ [CHR 0x27])"
proof -
  have f: "fetch_wikipedia_page (\<lambda>url headers. Inl (HTTPError 404 ''gone'')) '' New Zealand '' =
     Inl (HTTPError 404 ''gone'')"
    by (simp add: fetch_wikipedia_page_def)
  note t1 = get_country_outline_not_found
    [where requests_get = "\<lambda>url headers. Inl (HTTPError 404 ''gone'')"
       and country = "'' New Zealand ''" and msg = "''gone''" and BeautifulSoup = "\<lambda>html. Inr []",
     THEN conjunct1, rule_format, OF f]
  note t2 = get_country_outline_not_found
    [where requests_get = "\<lambda>url headers. Inr \<lparr>status_code = 404, reason = ''Not Found'', resp_url = url, resp_text = []\<rparr>"
       and country = "'' New Zealand ''"
       and r = "\<lparr>status_code = 404, reason = ''Not Found'',
             resp_url = wikipedia_url '' New Zealand '', resp_text = []\<rparr>"
       and BeautifulSoup = "\<lambda>html. Inr []",
     THEN conjunct2, THEN conjunct1, rule_format]
  have t2': "get_country_outline
        (\<lambda>url headers. Inr \<lparr>status_code = 404, reason = ''Not Found'', resp_url = url, resp_text = []\<rparr>)
        (\<lambda>html. Inr []) '' New Zealand '' =
       Inr (''Error: Wikipedia page not found for '' @ [CHR 0x27] @ '' New Zealand '' @ [CHR 0x27])"
    by (rule t2) simp
  show ?thesis using f t1 t2' by simp
qed

text \<open>
  C8.  The handler always returns a body: no failure of the fetch or of a later stage
  leaves it.  An HTTP failure with a status other than 404 gives a body that starts with
  \<open>Error fetching Wikipedia page:\<close>, and any other failure of the fetch gives
  \<open>Error: <message>\<close>.  After a successful fetch, markup that the parser rejects makes
  the extractor raise, and the handler answers \<open>Error: <message>\<close> for it too; markup
  that the parser accepts gives the outline of the extracted headings.
\<close>

theorem get_country_outline_catches_all:
  "(\<exists>body. get_country_outline requests_get BeautifulSoup country = Inr body)
   \<and> (fetch_wikipedia_page requests_get country = Inl (HTTPError code msg) \<and> code \<noteq> 404
      \<longrightarrow> get_country_outline requests_get BeautifulSoup country =
            Inr (''Error fetching Wikipedia page: '' @ msg))
   \<and> ((\<forall>headers. requests_get (wikipedia_url country) headers = Inr r)
        \<and> 400 \<le> status_code r \<and> status_code r < 600 \<and> status_code r \<noteq> 404
      \<longrightarrow> (\<exists>m. get_country_outline requests_get BeautifulSoup country =
                 Inr (''Error fetching Wikipedia page: '' @ m))
          \<and> prefix ''Error fetching Wikipedia page:''
                (case get_country_outline requests_get BeautifulSoup country of
                   Inr body \<Rightarrow> body | Inl e \<Rightarrow> []))
   \<and> (fetch_wikipedia_page requests_get country = Inl (OtherError msg)
      \<longrightarrow> get_country_outline requests_get BeautifulSoup country = Inr (''Error: '' @ msg))
   \<and> (fetch_wikipedia_page requests_get country = Inr html_content
        \<and> BeautifulSoup html_content = Inl (OtherError msg)
      \<longrightarrow> extract_headings BeautifulSoup html_content = Inl (OtherError msg)
          \<and> get_country_outline requests_get BeautifulSoup country = Inr (''Error: '' @ msg))
   \<and> (fetch_wikipedia_page requests_get country = Inr html_content
        \<and> BeautifulSoup html_content = Inr soup
      \<longrightarrow> (\<exists>headings. extract_headings BeautifulSoup html_content = Inr headings
            \<and> get_country_outline requests_get BeautifulSoup country =
                Inr (generate_markdown_outline country headings)))"
proof (intro conjI impI)
  show "\<exists>body. get_country_outline requests_get BeautifulSoup country = Inr body"
    by (rule get_country_outline_returns)
next
  assume "fetch_wikipedia_page requests_get country = Inl (HTTPError code msg) \<and> code \<noteq> 404"
  then show "get_country_outline requests_get BeautifulSoup country =
            Inr (''Error fetching Wikipedia page: '' @ msg)"
    by (simp add: get_country_outline_fetch_error(1))
next
  assume a: "(\<forall>headers. requests_get (wikipedia_url country) headers = Inr r)
        \<and> 400 \<le> status_code r \<and> status_code r < 600 \<and> status_code r \<noteq> 404"
  then obtain m where "fetch_wikipedia_page requests_get country = Inl (HTTPError (status_code r) m)"
    using fetch_wikipedia_page_status [of requests_get country r] by auto
  with a have g: "get_country_outline requests_get BeautifulSoup country =
            Inr (''Error fetching Wikipedia page: '' @ m)"
    by (simp add: get_country_outline_fetch_error(1))
  then show "\<exists>m. get_country_outline requests_get BeautifulSoup country =
                 Inr (''Error fetching Wikipedia page: '' @ m)" ..
  have "prefix ''Error fetching Wikipedia page:'' (''Error fetching Wikipedia page:'' @ '' '' @ m)"
    by (rule prefixI) simp
  then show "prefix ''Error fetching Wikipedia page:''
                (case get_country_outline requests_get BeautifulSoup country of
                   Inr body \<Rightarrow> body | Inl e \<Rightarrow> [])"
    by (simp add: g)
next
  assume "fetch_wikipedia_page requests_get country = Inl (OtherError msg)"
  then show "get_country_outline requests_get BeautifulSoup country = Inr (''Error: '' @ msg)"
    by (rule get_country_outline_fetch_error(2))
next
  assume a: "fetch_wikipedia_page requests_get country = Inr html_content
        \<and> BeautifulSoup html_content = Inl (OtherError msg)"
  then show "extract_headings BeautifulSoup html_content = Inl (OtherError msg)"
    by (simp add: extract_headings_Inl)
  from a show "get_country_outline requests_get BeautifulSoup country = Inr (''Error: '' @ msg)"
    by (simp add: get_country_outline_parser_error)
next
  assume a: "fetch_wikipedia_page requests_get country = Inr html_content
        \<and> BeautifulSoup html_content = Inr soup"
  then have f: "fetch_wikipedia_page requests_get country = Inr html_content" ..
  from a obtain headings where h: "extract_headings BeautifulSoup html_content = Inr headings"
    by (auto simp: extract_headings_Inr)
  with f have "get_country_outline requests_get BeautifulSoup country =
                Inr (generate_markdown_outline country headings)"
    by (simp add: get_country_outline_def)
  with h show "\<exists>headings. extract_headings BeautifulSoup html_content = Inr headings
            \<and> get_country_outline requests_get BeautifulSoup country =
                Inr (generate_markdown_outline country headings)"
    by blast
qed

theorem get_country_outline_catches_all_witness:
  "(\<forall>headers. (\<lambda>url headers. Inr \<lparr>status_code = 500, reason = ''Oops'', resp_url = ''u'', resp_text = []\<rparr>)
          (wikipedia_url ''Peru'') headers =
        Inr \<lparr>status_code = 500, reason = ''Oops'', resp_url = ''u'', resp_text = []\<rparr>)
   \<and> get_country_outline
        (\<lambda>url headers. Inr \<lparr>status_code = 500, reason = ''Oops'', resp_url = ''u'', resp_text = []\<rparr>)
        (\<lambda>html. Inr []) ''Peru'' =
       Inr ''Error fetching Wikipedia page: 500 Server Error: Oops for url: u''
   \<and> fetch_wikipedia_page (\<lambda>url headers. Inl (HTTPError 503 ''busy'')) ''Peru'' =
       Inl (HTTPError 503 ''busy'')
   \<and> get_country_outline (\<lambda>url headers. Inl (HTTPError 503 ''busy'')) (\<lambda>html. Inr []) ''Peru'' =
       Inr ''Error fetching Wikipedia page: busy''
   \<and> fetch_wikipedia_page (\<lambda>url headers. Inl (OtherError ''timed out'')) ''Peru'' =
       Inl (OtherError ''timed out'')
   \<and> get_country_outline (\<lambda>url headers. Inl (OtherError ''timed out'')) (\<lambda>html. Inr []) ''Peru'' =
       Inr ''Error: timed out''
   \<and> fetch_wikipedia_page
        (\<lambda>url headers. Inr \<lparr>status_code = 200, reason = ''OK'', resp_url = ''u'', resp_text = ''<p>''\<rparr>)
        ''Peru'' = Inr ''<p>''
   \<and> get_country_outline
        (\<lambda>url headers. Inr \<lparr>status_code = 200, reason = ''OK'', resp_url = ''u'', resp_text = ''<p>''\<rparr>)
        (\<lambda>html. Inr []) ''Peru'' = Inr (''## Contents'' @ [CHR 0x0A])
   \<and> fetch_wikipedia_page
        (\<lambda>url headers. Inr \<lparr>status_code = 200, reason = ''OK'', resp_url = ''u'',
                                resp_text = ''<h2>A</h2><![x]>''\<rparr>)
        ''Peru'' = Inr ''<h2>A</h2><![x]>''
   \<and> extract_headings
        (\<lambda>html. if html = ''<h2>A</h2><![x]>'' then Inl (OtherError ''rejected'') else Inr [])
        ''<h2>A</h2><![x]>'' = Inl (OtherError ''rejected'')
   \<and> get_country_outline
        (\<lambda>url headers. Inr \<lparr>status_code = 200, reason = ''OK'', resp_url = ''u'',
                                resp_text = ''<h2>A</h2><![x]>''\<rparr>)
        (\<lambda>html. if html = ''<h2>A</h2><![x]>'' then Inl (OtherError ''rejected'') else Inr [])
        ''Peru'' = Inr ''Error: rejected''"
proof -
  let ?P = "\<lambda>html. if html = ''<h2>A</h2><![x]>'' then Inl (OtherError ''rejected'')
                   else Inr [] :: exn + node list"
  let ?gbad = "\<lambda>(url :: string) (headers :: (string \<times> string) list).
     Inr \<lparr>status_code = 200, reason = ''OK'', resp_url = ''u'',
          resp_text = ''<h2>A</h2><![x]>''\<rparr> :: exn + response"
  have fbad: "fetch_wikipedia_page ?gbad ''Peru'' = Inr ''<h2>A</h2><![x]>''"
    by (simp add: fetch_wikipedia_page_def raise_for_status_def)
  have pbad: "?P ''<h2>A</h2><![x]>'' = Inl (OtherError ''rejected'')"
    by simp
  have cbad: "extract_headings ?P ''<h2>A</h2><![x]>'' = Inl (OtherError ''rejected'')
      \<and> get_country_outline ?gbad ?P ''Peru'' = Inr (''Error: '' @ ''rejected'')"
    using get_country_outline_catches_all
      [where requests_get = ?gbad and country = "''Peru''" and BeautifulSoup = ?P
         and html_content = "''<h2>A</h2><![x]>''" and msg = "''rejected''"]
      fbad pbad by simp
  let ?B = "\<lambda>html :: string. Inr [] :: exn + node list"
  let ?g500 = "\<lambda>(url :: string) (headers :: (string \<times> string) list).
     Inr \<lparr>status_code = 500, reason = ''Oops'', resp_url = ''u'', resp_text = []\<rparr> :: exn + response"
  let ?g503 = "\<lambda>(url :: string) (headers :: (string \<times> string) list).
     Inl (HTTPError 503 ''busy'') :: exn + response"
  let ?gto = "\<lambda>(url :: string) (headers :: (string \<times> string) list).
     Inl (OtherError ''timed out'') :: exn + response"
  let ?g200 = "\<lambda>(url :: string) (headers :: (string \<times> string) list).
     Inr \<lparr>status_code = 200, reason = ''OK'', resp_url = ''u'', resp_text = ''<p>''\<rparr> :: exn + response"
  have f503: "fetch_wikipedia_page ?g503 ''Peru'' = Inl (HTTPError 503 ''busy'')"
    by (simp add: fetch_wikipedia_page_def)
  have fto: "fetch_wikipedia_page ?gto ''Peru'' = Inl (OtherError ''timed out'')"
    by (simp add: fetch_wikipedia_page_def)
  have f200: "fetch_wikipedia_page ?g200 ''Peru'' = Inr ''<p>''"
    by (simp add: fetch_wikipedia_page_def raise_for_status_def)
  have s500: "str_int 500 = ''500''"
    by code_simp
  have f500: "fetch_wikipedia_page ?g500 ''Peru'' =
      Inl (HTTPError 500 ''500 Server Error: Oops for url: u'')"
    by (simp add: fetch_wikipedia_page_def raise_for_status_def s500)
  have e: "extract_headings ?B ''<p>'' = Inr []"
    by (simp add: extract_headings_def find_all_def descendants_def)
  have r: "generate_markdown_outline ''Peru'' [] = ''## Contents'' @ [CHR 0x0A]"
    by (simp add: generate_markdown_outline_def join_def)
  have c500: "get_country_outline ?g500 ?B ''Peru'' =
      Inr (''Error fetching Wikipedia page: '' @ ''500 Server Error: Oops for url: u'')"
    using get_country_outline_catches_all
      [where requests_get = ?g500 and country = "''Peru''" and code = 500
         and msg = "''500 Server Error: Oops for url: u''" and BeautifulSoup = ?B]
      f500 by simp
  have c503: "get_country_outline ?g503 ?B ''Peru'' = Inr (''Error fetching Wikipedia page: '' @ ''busy'')"
    using get_country_outline_catches_all
      [where requests_get = ?g503 and country = "''Peru''" and code = 503
         and msg = "''busy''" and BeautifulSoup = ?B]
      f503 by simp
  have cto: "get_country_outline ?gto ?B ''Peru'' = Inr (''Error: '' @ ''timed out'')"
    using get_country_outline_catches_all
      [where requests_get = ?gto and country = "''Peru''"
         and msg = "''timed out''" and BeautifulSoup = ?B]
      fto by simp
  have c200: "get_country_outline ?g200 ?B ''Peru'' = Inr (''## Contents'' @ [CHR 0x0A])"
    using get_country_outline_catches_all
      [where requests_get = ?g200 and country = "''Peru''"
         and html_content = "''<p>''" and BeautifulSoup = ?B and soup = "[]"]
      f200 e r by simp
  show ?thesis using c500 f503 c503 fto cto f200 c200 fbad cbad by simp
qed

end
